theory Spec2Isabelle
  imports Complex_Main "HOL-Library.Word"
begin

unbundle bit_operations_syntax

section \<open>Data model of package plumber\<close>

text \<open>
  \<^verbatim>\<open>type Duration struct { Duration time.Duration }\<close>: Go's \<^verbatim>\<open>time.Duration\<close> is an
  \<^verbatim>\<open>int64\<close> count of nanoseconds, read here as a 64-bit word in two's complement.
\<close>

record Duration =
  Duration :: "64 word"

text \<open>
  \<^verbatim>\<open>DecorationConfig\<close>: the two pointer fields to \<^verbatim>\<open>Duration\<close> and the pointer to
  \<^verbatim>\<open>bool\<close> are options (\<^verbatim>\<open>nil\<close> is \<open>None\<close>), slices of strings are lists.
\<close>

record DecorationConfig =
  Timeout :: "Duration option"
  GracePeriod :: "Duration option"
  GCSCredentialsSecret :: string
  SSHKeySecrets :: "string list"
  SSHHostFingerprints :: "string list"
  SkipCloning :: "bool option"
  CookiefileSecret :: string

text \<open>
  The error values the package can return. They all come from the Go standard library:
  \<^item> \<^verbatim>\<open>*json.SyntaxError\<close>, kept as the offending byte (none at the end of the input)
    and the scanner's context string, before they are rendered into \<^verbatim>\<open>msg\<close>;
  \<^item> \<^verbatim>\<open>*json.UnmarshalTypeError\<close> with its fields \<^verbatim>\<open>Value\<close> and \<^verbatim>\<open>Type\<close>;
  \<^item> \<^verbatim>\<open>errors.New(msg)\<close>, as \<^verbatim>\<open>time.ParseDuration\<close> builds it;
  \<^item> the decoder's \<^verbatim>\<open>panic(phasePanicMsg)\<close>.
  Byte offsets of the JSON errors are left out.
\<close>

datatype error =
  SyntaxError "char option" string
  | UnmarshalTypeError string string
  | errorString string
  | phasePanic


section \<open>The Go standard library as the package calls it\<close>

text \<open>
  \<^verbatim>\<open>UnmarshalJSON\<close> and \<^verbatim>\<open>MarshalJSON\<close> are compositions of \<^verbatim>\<open>json.Unmarshal\<close>,
  \<^verbatim>\<open>time.ParseDuration\<close>, \<^verbatim>\<open>time.Duration.String\<close> and \<^verbatim>\<open>json.Marshal\<close>. These are
  transcribed below from the sources of the Go standard library (packages
  \<^verbatim>\<open>encoding/json\<close>, \<^verbatim>\<open>strconv\<close>, \<^verbatim>\<open>unicode/utf8\<close>, \<^verbatim>\<open>unicode/utf16\<close> and \<^verbatim>\<open>time\<close>,
  as of Go 1.22), specialised to the two targets the package decodes into: a
  \<^verbatim>\<open>time.Duration\<close> (kind \<^verbatim>\<open>int64\<close>) and a \<^verbatim>\<open>string\<close>. A Go \<^verbatim>\<open>string\<close> or \<^verbatim>\<open>[]byte\<close> is a list
  of bytes, a byte is a \<^typ>\<open>char\<close>, and \<^verbatim>\<open>uint64\<close> arithmetic is arithmetic on \<^typ>\<open>nat\<close>
  reduced modulo \<open>2 ^ 64\<close> wherever the Go operation can wrap.
\<close>

abbreviation byte :: "char \<Rightarrow> nat" where
  "byte c \<equiv> of_char c"

definition u64 :: "nat \<Rightarrow> nat" where
  "u64 n = n mod 2 ^ 64"

definition isDigit :: "char \<Rightarrow> bool" where
  "isDigit c \<longleftrightarrow> byte CHR ''0'' \<le> byte c \<and> byte c \<le> byte CHR ''9''"

subsection \<open>encoding/json: the scanner (scanner.go)\<close>

datatype opcode =
  scanContinue | scanBeginLiteral | scanBeginObject | scanObjectKey | scanObjectValue
  | scanEndObject | scanBeginArray | scanArrayValue | scanEndArray | scanSkipSpace
  | scanEnd | scanError

datatype parse_state = parseObjectKey | parseObjectValue | parseArrayValue

text \<open>The scanner's \<^verbatim>\<open>step\<close> field holds one of its state functions; here, its name.\<close>

datatype step_fn =
  BeginValueOrEmpty | BeginValue | BeginStringOrEmpty | BeginString | EndValue | EndTop
  | InString | InStringEsc | InStringEscU | InStringEscU1 | InStringEscU12 | InStringEscU123
  | Neg | St1 | St0 | Dot | Dot0 | StE | ESign | E0
  | StT | Tr | Tru | StF | Fa | Fal | Fals | StN | Nu | Nul | StError

record scanner =
  step :: step_fn
  endTop :: bool
  parseState :: "parse_state list"
  err :: "error option"

definition maxNestingDepth :: nat where
  "maxNestingDepth = 10000"

definition reset :: scanner where
  "reset = \<lparr>step = BeginValue, endTop = False, parseState = [], err = None\<rparr>"

text \<open>\<^verbatim>\<open>func (s *scanner) error(c byte, context string) int\<close>\<close>

definition scan_error :: "scanner \<Rightarrow> char \<Rightarrow> string \<Rightarrow> scanner \<times> opcode" where
  "scan_error s c context =
     (s\<lparr>step := StError, err := Some (SyntaxError (Some c) context)\<rparr>, scanError)"

definition isSpace :: "char \<Rightarrow> bool" where
  "isSpace c \<longleftrightarrow> byte c \<le> byte CHR '' '' \<and>
     (c = CHR '' '' \<or> c = CHR 0x09 \<or> c = CHR 0x0D \<or> c = CHR 0x0A)"

text \<open>The parse-state stack grows at its end in Go; here its top is the head of the list.\<close>

definition pushParseState :: "scanner \<Rightarrow> char \<Rightarrow> parse_state \<Rightarrow> opcode \<Rightarrow> scanner \<times> opcode" where
  "pushParseState s c newParseState successState =
     (let s1 = s\<lparr>parseState := newParseState # parseState s\<rparr>
      in if length (parseState s1) \<le> maxNestingDepth then (s1, successState)
         else scan_error s1 c ''exceeded max depth'')"

definition popParseState :: "scanner \<Rightarrow> scanner" where
  "popParseState s =
     (let s1 = s\<lparr>parseState := tl (parseState s)\<rparr>
      in if parseState s1 = [] then s1\<lparr>step := EndTop, endTop := True\<rparr>
         else s1\<lparr>step := EndValue\<rparr>)"

text \<open>
  \<^verbatim>\<open>stateEndTop\<close> records the error for a byte other than space after the top-level
  value, and still returns \<^verbatim>\<open>scanEnd\<close>.
\<close>

definition stateEndTop :: "scanner \<Rightarrow> char \<Rightarrow> scanner \<times> opcode" where
  "stateEndTop s c =
     (if \<not> isSpace c then (fst (scan_error s c ''after top-level value''), scanEnd)
      else (s, scanEnd))"

definition stateEndValue :: "scanner \<Rightarrow> char \<Rightarrow> scanner \<times> opcode" where
  "stateEndValue s c =
     (case parseState s of
        [] \<Rightarrow> stateEndTop (s\<lparr>step := EndTop, endTop := True\<rparr>) c
      | ps # rest \<Rightarrow>
          if isSpace c then (s\<lparr>step := EndValue\<rparr>, scanSkipSpace)
          else (case ps of
            parseObjectKey \<Rightarrow>
              if c = CHR '':'' then
                (s\<lparr>parseState := parseObjectValue # rest, step := BeginValue\<rparr>, scanObjectKey)
              else scan_error s c ''after object key''
          | parseObjectValue \<Rightarrow>
              if c = CHR '','' then
                (s\<lparr>parseState := parseObjectKey # rest, step := BeginString\<rparr>, scanObjectValue)
              else if c = CHR ''}'' then (popParseState s, scanEndObject)
              else scan_error s c ''after object key:value pair''
          | parseArrayValue \<Rightarrow>
              if c = CHR '','' then (s\<lparr>step := BeginValue\<rparr>, scanArrayValue)
              else if c = CHR '']'' then (popParseState s, scanEndArray)
              else scan_error s c ''after array element''))"

definition stateBeginValue :: "scanner \<Rightarrow> char \<Rightarrow> scanner \<times> opcode" where
  "stateBeginValue s c =
     (if isSpace c then (s, scanSkipSpace)
      else if c = CHR ''{'' then
        pushParseState (s\<lparr>step := BeginStringOrEmpty\<rparr>) c parseObjectKey scanBeginObject
      else if c = CHR ''['' then
        pushParseState (s\<lparr>step := BeginValueOrEmpty\<rparr>) c parseArrayValue scanBeginArray
      else if c = CHR 0x22 then (s\<lparr>step := InString\<rparr>, scanBeginLiteral)
      else if c = CHR ''-'' then (s\<lparr>step := Neg\<rparr>, scanBeginLiteral)
      else if c = CHR ''0'' then (s\<lparr>step := St0\<rparr>, scanBeginLiteral)
      else if c = CHR ''t'' then (s\<lparr>step := StT\<rparr>, scanBeginLiteral)
      else if c = CHR ''f'' then (s\<lparr>step := StF\<rparr>, scanBeginLiteral)
      else if c = CHR ''n'' then (s\<lparr>step := StN\<rparr>, scanBeginLiteral)
      else if byte CHR ''1'' \<le> byte c \<and> byte c \<le> byte CHR ''9'' then
        (s\<lparr>step := St1\<rparr>, scanBeginLiteral)
      else scan_error s c ''looking for beginning of value'')"

definition stateBeginValueOrEmpty :: "scanner \<Rightarrow> char \<Rightarrow> scanner \<times> opcode" where
  "stateBeginValueOrEmpty s c =
     (if isSpace c then (s, scanSkipSpace)
      else if c = CHR '']'' then stateEndValue s c
      else stateBeginValue s c)"

definition stateBeginString :: "scanner \<Rightarrow> char \<Rightarrow> scanner \<times> opcode" where
  "stateBeginString s c =
     (if isSpace c then (s, scanSkipSpace)
      else if c = CHR 0x22 then (s\<lparr>step := InString\<rparr>, scanBeginLiteral)
      else scan_error s c ''looking for beginning of object key string'')"

definition stateBeginStringOrEmpty :: "scanner \<Rightarrow> char \<Rightarrow> scanner \<times> opcode" where
  "stateBeginStringOrEmpty s c =
     (if isSpace c then (s, scanSkipSpace)
      else if c = CHR ''}'' then
        stateEndValue (s\<lparr>parseState := parseObjectValue # tl (parseState s)\<rparr>) c
      else stateBeginString s c)"

definition stateInString :: "scanner \<Rightarrow> char \<Rightarrow> scanner \<times> opcode" where
  "stateInString s c =
     (if c = CHR 0x22 then (s\<lparr>step := EndValue\<rparr>, scanContinue)
      else if c = CHR 0x5C then (s\<lparr>step := InStringEsc\<rparr>, scanContinue)
      else if byte c < 0x20 then scan_error s c ''in string literal''
      else (s, scanContinue))"

definition stateInStringEsc :: "scanner \<Rightarrow> char \<Rightarrow> scanner \<times> opcode" where
  "stateInStringEsc s c =
     (if c \<in> set [CHR ''b'', CHR ''f'', CHR ''n'', CHR ''r'', CHR ''t'', CHR 0x5C, CHR ''/'',
                  CHR 0x22]
      then (s\<lparr>step := InString\<rparr>, scanContinue)
      else if c = CHR ''u'' then (s\<lparr>step := InStringEscU\<rparr>, scanContinue)
      else scan_error s c ''in string escape code'')"

definition isHex :: "char \<Rightarrow> bool" where
  "isHex c \<longleftrightarrow> byte CHR ''0'' \<le> byte c \<and> byte c \<le> byte CHR ''9''
     \<or> byte CHR ''a'' \<le> byte c \<and> byte c \<le> byte CHR ''f''
     \<or> byte CHR ''A'' \<le> byte c \<and> byte c \<le> byte CHR ''F''"

text \<open>
  \<^verbatim>\<open>stateInStringEscU\<close>, \<^verbatim>\<open>stateInStringEscU1\<close>, \<^verbatim>\<open>stateInStringEscU12\<close> and
  \<^verbatim>\<open>stateInStringEscU123\<close> differ only in the state they move to.
\<close>

definition stateInStringEscU_to :: "step_fn \<Rightarrow> scanner \<Rightarrow> char \<Rightarrow> scanner \<times> opcode" where
  "stateInStringEscU_to next s c =
     (if isHex c then (s\<lparr>step := next\<rparr>, scanContinue)
      else scan_error s c (''in '' @ [CHR 0x5C] @ ''u hexadecimal character escape''))"

definition stateNeg :: "scanner \<Rightarrow> char \<Rightarrow> scanner \<times> opcode" where
  "stateNeg s c =
     (if c = CHR ''0'' then (s\<lparr>step := St0\<rparr>, scanContinue)
      else if byte CHR ''1'' \<le> byte c \<and> byte c \<le> byte CHR ''9'' then
        (s\<lparr>step := St1\<rparr>, scanContinue)
      else scan_error s c ''in numeric literal'')"

definition stateE0 :: "scanner \<Rightarrow> char \<Rightarrow> scanner \<times> opcode" where
  "stateE0 s c =
     (if isDigit c then (s, scanContinue) else stateEndValue s c)"

definition stateESign :: "scanner \<Rightarrow> char \<Rightarrow> scanner \<times> opcode" where
  "stateESign s c =
     (if isDigit c then (s\<lparr>step := E0\<rparr>, scanContinue)
      else scan_error s c ''in exponent of numeric literal'')"

definition stateE :: "scanner \<Rightarrow> char \<Rightarrow> scanner \<times> opcode" where
  "stateE s c =
     (if c = CHR ''+'' \<or> c = CHR ''-'' then (s\<lparr>step := ESign\<rparr>, scanContinue)
      else stateESign s c)"

definition stateDot0 :: "scanner \<Rightarrow> char \<Rightarrow> scanner \<times> opcode" where
  "stateDot0 s c =
     (if isDigit c then (s, scanContinue)
      else if c = CHR ''e'' \<or> c = CHR ''E'' then (s\<lparr>step := StE\<rparr>, scanContinue)
      else stateEndValue s c)"

definition stateDot :: "scanner \<Rightarrow> char \<Rightarrow> scanner \<times> opcode" where
  "stateDot s c =
     (if isDigit c then (s\<lparr>step := Dot0\<rparr>, scanContinue)
      else scan_error s c ''after decimal point in numeric literal'')"

definition state0 :: "scanner \<Rightarrow> char \<Rightarrow> scanner \<times> opcode" where
  "state0 s c =
     (if c = CHR ''.'' then (s\<lparr>step := Dot\<rparr>, scanContinue)
      else if c = CHR ''e'' \<or> c = CHR ''E'' then (s\<lparr>step := StE\<rparr>, scanContinue)
      else stateEndValue s c)"

definition state1 :: "scanner \<Rightarrow> char \<Rightarrow> scanner \<times> opcode" where
  "state1 s c =
     (if isDigit c then (s\<lparr>step := St1\<rparr>, scanContinue) else state0 s c)"

text \<open>
  The states inside \<^verbatim>\<open>true\<close>, \<^verbatim>\<open>false\<close> and \<^verbatim>\<open>null\<close> (\<^verbatim>\<open>stateT\<close>, \<^verbatim>\<open>stateTr\<close>, ...)
  each expect one letter, move to the next state, and fail with their own context.
\<close>

definition stateLetter :: "char \<Rightarrow> step_fn \<Rightarrow> string \<Rightarrow> scanner \<Rightarrow> char \<Rightarrow> scanner \<times> opcode" where
  "stateLetter expected next context s c =
     (if c = expected then (s\<lparr>step := next\<rparr>, scanContinue)
      else scan_error s c context)"

text \<open>\<^verbatim>\<open>s.step(s, c)\<close>: the call through the function value held in \<^verbatim>\<open>step\<close>.\<close>

definition call_step :: "scanner \<Rightarrow> char \<Rightarrow> scanner \<times> opcode" where
  "call_step s c =
     (case step s of
        BeginValueOrEmpty \<Rightarrow> stateBeginValueOrEmpty s c
      | BeginValue \<Rightarrow> stateBeginValue s c
      | BeginStringOrEmpty \<Rightarrow> stateBeginStringOrEmpty s c
      | BeginString \<Rightarrow> stateBeginString s c
      | EndValue \<Rightarrow> stateEndValue s c
      | EndTop \<Rightarrow> stateEndTop s c
      | InString \<Rightarrow> stateInString s c
      | InStringEsc \<Rightarrow> stateInStringEsc s c
      | InStringEscU \<Rightarrow> stateInStringEscU_to InStringEscU1 s c
      | InStringEscU1 \<Rightarrow> stateInStringEscU_to InStringEscU12 s c
      | InStringEscU12 \<Rightarrow> stateInStringEscU_to InStringEscU123 s c
      | InStringEscU123 \<Rightarrow> stateInStringEscU_to InString s c
      | Neg \<Rightarrow> stateNeg s c
      | St1 \<Rightarrow> state1 s c
      | St0 \<Rightarrow> state0 s c
      | Dot \<Rightarrow> stateDot s c
      | Dot0 \<Rightarrow> stateDot0 s c
      | StE \<Rightarrow> stateE s c
      | ESign \<Rightarrow> stateESign s c
      | E0 \<Rightarrow> stateE0 s c
      | StT \<Rightarrow> stateLetter CHR ''r'' Tr ''in literal true (expecting 'r')'' s c
      | Tr \<Rightarrow> stateLetter CHR ''u'' Tru ''in literal true (expecting 'u')'' s c
      | Tru \<Rightarrow> stateLetter CHR ''e'' EndValue ''in literal true (expecting 'e')'' s c
      | StF \<Rightarrow> stateLetter CHR ''a'' Fa ''in literal false (expecting 'a')'' s c
      | Fa \<Rightarrow> stateLetter CHR ''l'' Fal ''in literal false (expecting 'l')'' s c
      | Fal \<Rightarrow> stateLetter CHR ''s'' Fals ''in literal false (expecting 's')'' s c
      | Fals \<Rightarrow> stateLetter CHR ''e'' EndValue ''in literal false (expecting 'e')'' s c
      | StN \<Rightarrow> stateLetter CHR ''u'' Nu ''in literal null (expecting 'u')'' s c
      | Nu \<Rightarrow> stateLetter CHR ''l'' Nul ''in literal null (expecting 'l')'' s c
      | Nul \<Rightarrow> stateLetter CHR ''l'' EndValue ''in literal null (expecting 'l')'' s c
      | StError \<Rightarrow> (s, scanError))"

text \<open>\<^verbatim>\<open>func (s *scanner) eof() int\<close>\<close>

definition eof :: "scanner \<Rightarrow> scanner \<times> opcode" where
  "eof s =
     (if err s \<noteq> None then (s, scanError)
      else if endTop s then (s, scanEnd)
      else let s1 = fst (call_step s CHR '' '')
           in if endTop s1 then (s1, scanEnd)
              else if err s1 = None then
                (s1\<lparr>err := Some (SyntaxError None ''unexpected end of JSON input'')\<rparr>, scanError)
              else (s1, scanError))"

text \<open>
  \<^verbatim>\<open>func checkValid(data []byte, scan *scanner) error\<close>: the loop over the bytes, started
  from the reset scanner.
\<close>

fun checkValid_from :: "scanner \<Rightarrow> string \<Rightarrow> error option" where
  "checkValid_from scan [] =
     (case eof scan of (s1, op) \<Rightarrow> if op = scanError then err s1 else None)"
| "checkValid_from scan (c # data) =
     (case call_step scan c of (s1, op) \<Rightarrow>
        if op = scanError then err s1 else checkValid_from s1 data)"

definition checkValid :: "string \<Rightarrow> error option" where
  "checkValid data = checkValid_from reset data"

subsection \<open>strconv.ParseInt with base 10 and bit size 64 (atoi.go)\<close>

datatype num_err = ErrSyntax | ErrRange

definition maxUint64 :: nat where
  "maxUint64 = 2 ^ 64 - 1"

text \<open>
  The loop of \<^verbatim>\<open>ParseUint\<close> over the bytes of \<open>s\<close>, with \<^verbatim>\<open>base = 10\<close>, \<^verbatim>\<open>bitSize = 64\<close>,
  \<^verbatim>\<open>cutoff = maxUint64/10 + 1\<close> and \<^verbatim>\<open>maxVal = 1<<64 - 1\<close>. A letter is a digit of value
  at least 10 there, which is rejected like any other byte that is no decimal digit. On
  a range error Go returns \<^verbatim>\<open>maxVal\<close> together with the error.
\<close>

fun ParseUint_loop :: "nat \<Rightarrow> string \<Rightarrow> nat \<times> num_err option" where
  "ParseUint_loop n [] = (n, None)"
| "ParseUint_loop n (c # cs) =
     (if \<not> isDigit c then (0, Some ErrSyntax)
      else let d = byte c - byte CHR ''0'' in
        if n \<ge> maxUint64 div 10 + 1 then (maxUint64, Some ErrRange)
        else let n10 = u64 (n * 10); n1 = u64 (n10 + d) in
          if n1 < n10 \<or> n1 > maxUint64 then (maxUint64, Some ErrRange)
          else ParseUint_loop n1 cs)"

definition ParseUint :: "string \<Rightarrow> nat \<times> num_err option" where
  "ParseUint s = (if s = [] then (0, Some ErrSyntax) else ParseUint_loop 0 s)"

text \<open>
  \<^verbatim>\<open>ParseInt(s, 10, 64)\<close>: the pair of the \<^verbatim>\<open>int64\<close> and the error. \<^verbatim>\<open>int64(un)\<close> and the
  negation are two's complement operations on the 64-bit word.
\<close>

definition ParseInt :: "string \<Rightarrow> 64 word \<times> num_err option" where
  "ParseInt s0 =
     (if s0 = [] then (0, Some ErrSyntax)
      else let neg = (hd s0 = CHR ''-'');
               s = (if hd s0 = CHR ''+'' \<or> hd s0 = CHR ''-'' then tl s0 else s0);
               (un, uerr) = ParseUint s;
               cutoff = (2::nat) ^ 63
           in if uerr \<noteq> None \<and> uerr \<noteq> Some ErrRange then (0, uerr)
              else if \<not> neg \<and> un \<ge> cutoff then (of_nat (cutoff - 1), Some ErrRange)
              else if neg \<and> un > cutoff then (- of_nat cutoff, Some ErrRange)
              else (if neg then - of_nat un else of_nat un, None))"

subsection \<open>unicode/utf8 and unicode/utf16\<close>

type_synonym rune = int

definition RuneError :: rune where
  "RuneError = 0xFFFD"

text \<open>
  The table \<^verbatim>\<open>first\<close> of utf8.go, by ranges of the first byte: \<^verbatim>\<open>as = 0xF0\<close> for ASCII,
  \<^verbatim>\<open>xx = 0xF1\<close> for an invalid byte, otherwise the size in the low bits and the index
  into \<^verbatim>\<open>acceptRanges\<close> in the high ones.
\<close>

definition first :: "char \<Rightarrow> nat" where
  "first p0 =
     (let b = byte p0 in
      if b < 0x80 then 0xF0
      else if b < 0xC2 then 0xF1
      else if b < 0xE0 then 0x02
      else if b = 0xE0 then 0x13
      else if b < 0xED then 0x03
      else if b = 0xED then 0x23
      else if b < 0xF0 then 0x03
      else if b = 0xF0 then 0x34
      else if b < 0xF4 then 0x04
      else if b = 0xF4 then 0x44
      else 0xF1)"

definition acceptRanges :: "nat \<Rightarrow> nat \<times> nat" where
  "acceptRanges i =
     (if i = 0 then (0x80, 0xBF)
      else if i = 1 then (0xA0, 0xBF)
      else if i = 2 then (0x80, 0x9F)
      else if i = 3 then (0x90, 0xBF)
      else if i = 4 then (0x80, 0x8F)
      else (0, 0))"

text \<open>\<^verbatim>\<open>func DecodeRune(p []byte) (r rune, size int)\<close>\<close>

definition DecodeRune :: "string \<Rightarrow> rune \<times> nat" where
  "DecodeRune p =
     (case p of [] \<Rightarrow> (RuneError, 0)
      | p0 # _ \<Rightarrow>
        let x = first p0 in
        if x \<ge> 0xF0 then (if x = 0xF0 then (of_char p0, 1) else (RuneError, 1))
        else let sz = x AND 7; (lo, hi) = acceptRanges (drop_bit 4 x) in
          if length p < sz then (RuneError, 1)
          else let b1 = byte (p ! 1) in
            if b1 < lo \<or> hi < b1 then (RuneError, 1)
            else if sz \<le> 2 then
              (push_bit 6 (of_char p0 AND 0x1F) OR (int b1 AND 0x3F), 2)
            else let b2 = byte (p ! 2) in
              if b2 < 0x80 \<or> 0xBF < b2 then (RuneError, 1)
              else if sz \<le> 3 then
                (push_bit 12 (of_char p0 AND 0x0F) OR push_bit 6 (int b1 AND 0x3F)
                   OR (int b2 AND 0x3F), 3)
              else let b3 = byte (p ! 3) in
                if b3 < 0x80 \<or> 0xBF < b3 then (RuneError, 1)
                else
                  (push_bit 18 (of_char p0 AND 0x07) OR push_bit 12 (int b1 AND 0x3F)
                     OR push_bit 6 (int b2 AND 0x3F) OR (int b3 AND 0x3F), 4))"

text \<open>
  \<^verbatim>\<open>func EncodeRune(p []byte, r rune) int\<close>, returning the bytes written. \<^verbatim>\<open>uint32(r)\<close> is
  \<open>r mod 2 ^ 32\<close>, and \<^verbatim>\<open>byte(x)\<close> keeps the low eight bits, as \<^const>\<open>char_of\<close> does.
\<close>

definition EncodeRune :: "rune \<Rightarrow> string" where
  "EncodeRune r =
     (let i = r mod 2 ^ 32 in
      if i \<le> 0x7F then [char_of r]
      else if i \<le> 0x7FF then
        [char_of (0xC0 OR drop_bit 6 r), char_of (0x80 OR (r AND 0x3F))]
      else let r3 = (if i > 0x10FFFF \<or> (0xD800 \<le> i \<and> i \<le> 0xDFFF) then RuneError else r) in
        if i > 0x10FFFF \<or> (0xD800 \<le> i \<and> i \<le> 0xDFFF) \<or> i \<le> 0xFFFF then
          [char_of (0xE0 OR drop_bit 12 r3), char_of (0x80 OR (drop_bit 6 r3 AND 0x3F)),
           char_of (0x80 OR (r3 AND 0x3F))]
        else
          [char_of (0xF0 OR drop_bit 18 r), char_of (0x80 OR (drop_bit 12 r AND 0x3F)),
           char_of (0x80 OR (drop_bit 6 r AND 0x3F)), char_of (0x80 OR (r AND 0x3F))])"

text \<open>\<^verbatim>\<open>utf16.IsSurrogate\<close> and \<^verbatim>\<open>utf16.DecodeRune\<close>\<close>

definition IsSurrogate :: "rune \<Rightarrow> bool" where
  "IsSurrogate r \<longleftrightarrow> 0xD800 \<le> r \<and> r < 0xE000"

definition utf16_DecodeRune :: "rune \<Rightarrow> rune \<Rightarrow> rune" where
  "utf16_DecodeRune r1 r2 =
     (if 0xD800 \<le> r1 \<and> r1 < 0xDC00 \<and> 0xDC00 \<le> r2 \<and> r2 < 0xE000
      then (push_bit 10 (r1 - 0xD800) OR (r2 - 0xDC00)) + 0x10000
      else 0xFFFD)"

subsection \<open>encoding/json: decoding a top-level value (decode.go)\<close>

text \<open>\<^verbatim>\<open>func getu4(s []byte) rune\<close>: the code unit of a \<^verbatim>\<open>\uXXXX\<close> escape, or \<open>-1\<close>.\<close>

fun hexval :: "rune \<Rightarrow> string \<Rightarrow> rune" where
  "hexval r [] = r"
| "hexval r (c # cs) =
     (if r < 0 then r
      else if isDigit c then hexval (r * 16 + (of_char c - of_char CHR ''0'')) cs
      else if byte CHR ''a'' \<le> byte c \<and> byte c \<le> byte CHR ''f'' then
        hexval (r * 16 + (of_char c - of_char CHR ''a'' + 10)) cs
      else if byte CHR ''A'' \<le> byte c \<and> byte c \<le> byte CHR ''F'' then
        hexval (r * 16 + (of_char c - of_char CHR ''A'' + 10)) cs
      else - 1)"

definition getu4 :: "string \<Rightarrow> rune" where
  "getu4 s =
     (if length s < 6 \<or> s ! 0 \<noteq> CHR 0x5C \<or> s ! 1 \<noteq> CHR ''u'' then - 1
      else hexval 0 (take 4 (drop 2 s)))"

text \<open>
  \<^verbatim>\<open>unquoteBytes\<close> first runs over the bytes that need no unquoting; \<open>unquote_plain s\<close> is
  the index \<^verbatim>\<open>r\<close> at which that first loop stops.
\<close>

fun unquote_plain :: "string \<Rightarrow> nat" where
  "unquote_plain [] = 0"
| "unquote_plain (c # cs) =
     (if c = CHR 0x5C \<or> c = CHR 0x22 \<or> byte c < 0x20 then 0
      else if byte c < 0x80 then 1 + unquote_plain cs
      else case DecodeRune (c # cs) of (rr, n) \<Rightarrow>
        if rr = RuneError \<and> n = 1 then 0
        else n + unquote_plain (drop (n - 1) cs))"

text \<open>
  The second loop of \<^verbatim>\<open>unquoteBytes\<close>, from index \<^verbatim>\<open>r\<close> on: the bytes it appends to the
  output, or \<open>None\<close> where Go returns \<^verbatim>\<open>ok = false\<close>.
\<close>

fun unquote_rest :: "string \<Rightarrow> string option" where
  "unquote_rest [] = Some []"
| "unquote_rest (c # cs) =
     (if c = CHR 0x5C then
        (case cs of [] \<Rightarrow> None
         | e # cs' \<Rightarrow>
            if e = CHR 0x22 \<or> e = CHR 0x5C \<or> e = CHR ''/'' \<or> e = CHR 0x27 then
              map_option ((#) e) (unquote_rest cs')
            else if e = CHR ''b'' then map_option ((#) (CHR 0x08)) (unquote_rest cs')
            else if e = CHR ''f'' then map_option ((#) (CHR 0x0C)) (unquote_rest cs')
            else if e = CHR ''n'' then map_option ((#) (CHR 0x0A)) (unquote_rest cs')
            else if e = CHR ''r'' then map_option ((#) (CHR 0x0D)) (unquote_rest cs')
            else if e = CHR ''t'' then map_option ((#) (CHR 0x09)) (unquote_rest cs')
            else if e = CHR ''u'' then
              (let rr = getu4 (c # e # cs') in
               if rr < 0 then None
               else if IsSurrogate rr then
                 (let rr1 = getu4 (drop 4 cs'); dec = utf16_DecodeRune rr rr1 in
                  if dec \<noteq> 0xFFFD then
                    map_option ((@) (EncodeRune dec)) (unquote_rest (drop 6 (drop 4 cs')))
                  else map_option ((@) (EncodeRune 0xFFFD)) (unquote_rest (drop 4 cs')))
               else map_option ((@) (EncodeRune rr)) (unquote_rest (drop 4 cs')))
            else None)
      else if c = CHR 0x22 \<or> byte c < 0x20 then None
      else if byte c < 0x80 then map_option ((#) c) (unquote_rest cs)
      else case DecodeRune (c # cs) of (rr, n) \<Rightarrow>
        map_option ((@) (EncodeRune rr)) (unquote_rest (drop (n - 1) cs)))"

text \<open>\<^verbatim>\<open>func unquoteBytes(s []byte) (t []byte, ok bool)\<close>, with \<open>None\<close> for \<^verbatim>\<open>ok = false\<close>.\<close>

definition unquoteBytes :: "string \<Rightarrow> string option" where
  "unquoteBytes s0 =
     (if length s0 < 2 \<or> hd s0 \<noteq> CHR 0x22 \<or> last s0 \<noteq> CHR 0x22 then None
      else let s = butlast (tl s0); r = unquote_plain s in
        if r = length s then Some s
        else map_option ((@) (take r s)) (unquote_rest (drop r s)))"

text \<open>
  \<^verbatim>\<open>func (d *decodeState) scanWhile(op int)\<close> with \<^verbatim>\<open>op = scanSkipSpace\<close>: the scanner after
  the first byte that is no space, the opcode of that byte, and the data from that byte
  on (from \<^verbatim>\<open>d.readIndex()\<close>).
\<close>

fun scanWhile :: "scanner \<Rightarrow> string \<Rightarrow> scanner \<times> opcode \<times> string" where
  "scanWhile s [] = (case eof s of (s1, op) \<Rightarrow> (s1, op, []))"
| "scanWhile s (c # data) =
     (case call_step s c of (s1, op) \<Rightarrow>
        if op \<noteq> scanSkipSpace then (s1, op, c # data) else scanWhile s1 data)"

text \<open>
  \<^verbatim>\<open>func (d *decodeState) rescanLiteral()\<close>: the literal \<^verbatim>\<open>d.data[start:d.readIndex()]\<close> that
  \<^verbatim>\<open>d.value\<close> hands to \<^verbatim>\<open>literalStore\<close>, where \<open>data\<close> starts at \<^verbatim>\<open>start\<close>.
\<close>

fun rescan_string :: "string \<Rightarrow> string" where
  "rescan_string [] = []"
| "rescan_string (c # cs) =
     (if c = CHR 0x5C then (case cs of [] \<Rightarrow> [c] | e # cs' \<Rightarrow> c # e # rescan_string cs')
      else if c = CHR 0x22 then [c]
      else c # rescan_string cs)"

definition rescanLiteral :: "string \<Rightarrow> string" where
  "rescanLiteral data =
     (case data of [] \<Rightarrow> []
      | c # cs \<Rightarrow>
        if c = CHR 0x22 then c # rescan_string cs
        else if isDigit c \<or> c = CHR ''-'' then
          c # takeWhile (\<lambda>x. isDigit x \<or> x \<in> set [CHR ''.'', CHR ''e'', CHR ''E'', CHR ''+'', CHR ''-'']) cs
        else if c = CHR ''t'' then take 4 data
        else if c = CHR ''f'' then take 5 data
        else if c = CHR ''n'' then take 4 data
        else [c])"

text \<open>
  \<^verbatim>\<open>func (d *decodeState) literalStore(item []byte, v reflect.Value, fromQuoted bool)\<close> for
  a value of kind \<^verbatim>\<open>int64\<close> and type \<^verbatim>\<open>time.Duration\<close>, which implements no unmarshaler,
  with \<^verbatim>\<open>fromQuoted = false\<close>: the saved error and the value afterwards.
\<close>

definition emptyItemError :: "string \<Rightarrow> error" where
  "emptyItemError t = errorString
     (''json: invalid use of ,string struct tag, trying to unmarshal ''
        @ [CHR 0x22, CHR 0x22] @ '' into '' @ t)"

definition literalStore_Duration :: "string \<Rightarrow> 64 word \<Rightarrow> error option \<times> 64 word" where
  "literalStore_Duration item v =
     (case item of [] \<Rightarrow> (Some (emptyItemError ''time.Duration''), v)
      | c # _ \<Rightarrow>
        if c = CHR ''n'' then (None, v)
        else if c = CHR ''t'' \<or> c = CHR ''f'' then
          (Some (UnmarshalTypeError ''bool'' ''time.Duration''), v)
        else if c = CHR 0x22 then
          (case unquoteBytes item of None \<Rightarrow> (Some phasePanic, v)
           | Some s \<Rightarrow> (Some (UnmarshalTypeError ''string'' ''time.Duration''), v))
        else if c \<noteq> CHR ''-'' \<and> \<not> isDigit c then (Some phasePanic, v)
        else case ParseInt item of (n, nerr) \<Rightarrow>
          if nerr \<noteq> None then
            (Some (UnmarshalTypeError (''number '' @ item) ''time.Duration''), v)
          else (None, n))"

text \<open>The same for a value of kind and type \<^verbatim>\<open>string\<close>.\<close>

definition literalStore_string :: "string \<Rightarrow> string \<Rightarrow> error option \<times> string" where
  "literalStore_string item v =
     (case item of [] \<Rightarrow> (Some (emptyItemError ''string''), v)
      | c # _ \<Rightarrow>
        if c = CHR ''n'' then (None, v)
        else if c = CHR ''t'' \<or> c = CHR ''f'' then
          (Some (UnmarshalTypeError ''bool'' ''string''), v)
        else if c = CHR 0x22 then
          (case unquoteBytes item of None \<Rightarrow> (Some phasePanic, v)
           | Some s \<Rightarrow> (None, s))
        else if c \<noteq> CHR ''-'' \<and> \<not> isDigit c then (Some phasePanic, v)
        else (Some (UnmarshalTypeError ''number'' ''string''), v))"

text \<open>
  \<^verbatim>\<open>func Unmarshal(data []byte, v any) error\<close> with \<open>v\<close> the address of a
  \<^verbatim>\<open>time.Duration\<close>: \<^verbatim>\<open>checkValid\<close>, then \<^verbatim>\<open>d.unmarshal\<close>, which skips the leading space and
  runs \<^verbatim>\<open>d.value\<close>. An array or an object is skipped with an \<^verbatim>\<open>UnmarshalTypeError\<close>. The
  result is the error and the value stored at the address afterwards.
\<close>

definition json_Unmarshal_Duration :: "string \<Rightarrow> 64 word \<Rightarrow> error option \<times> 64 word" where
  "json_Unmarshal_Duration data v =
     (case checkValid data of Some e \<Rightarrow> (Some e, v)
      | None \<Rightarrow>
        (case scanWhile reset data of (s, op, rest) \<Rightarrow>
           if op = scanBeginArray then (Some (UnmarshalTypeError ''array'' ''time.Duration''), v)
           else if op = scanBeginObject then
             (Some (UnmarshalTypeError ''object'' ''time.Duration''), v)
           else if op = scanBeginLiteral then literalStore_Duration (rescanLiteral rest) v
           else (Some phasePanic, v)))"

text \<open>The same with \<open>v\<close> the address of a \<^verbatim>\<open>string\<close>.\<close>

definition json_Unmarshal_string :: "string \<Rightarrow> string \<Rightarrow> error option \<times> string" where
  "json_Unmarshal_string data v =
     (case checkValid data of Some e \<Rightarrow> (Some e, v)
      | None \<Rightarrow>
        (case scanWhile reset data of (s, op, rest) \<Rightarrow>
           if op = scanBeginArray then (Some (UnmarshalTypeError ''array'' ''string''), v)
           else if op = scanBeginObject then (Some (UnmarshalTypeError ''object'' ''string''), v)
           else if op = scanBeginLiteral then literalStore_string (rescanLiteral rest) v
           else (Some phasePanic, v)))"

subsection \<open>float64 arithmetic\<close>

text \<open>
  \<^verbatim>\<open>time.ParseDuration\<close> computes the fraction of a unit in \<^verbatim>\<open>float64\<close>. A finite
  \<^verbatim>\<open>float64\<close> is a rational number, and each IEEE 754 operation returns the exact result
  rounded to the nearest number with a 53-bit significand, ties to the even one.
  \<open>f64\<close> is that rounding. The exponent is left unbounded: the values that occur here lie
  between \<open>10 ^ 19\<close> and its inverse, times \<open>2 ^ 64\<close> at most, far inside the range of
  normal numbers.
\<close>

fun bit_length :: "nat \<Rightarrow> nat" where
  "bit_length n = (if n = 0 then 0 else Suc (bit_length (n div 2)))"

definition pow2 :: "int \<Rightarrow> rat" where
  "pow2 k = (if 0 \<le> k then 2 ^ nat k else 1 / 2 ^ nat (- k))"

text \<open>\<open>ilog2 x\<close> is the exponent \<open>e\<close> with \<open>2 ^ e \<le> x < 2 ^ (e + 1)\<close>, for \<open>0 < x\<close>.\<close>

definition ilog2 :: "rat \<Rightarrow> int" where
  "ilog2 x =
     (if 1 \<le> x then int (bit_length (nat \<lfloor>x\<rfloor>)) - 1
      else - int (bit_length (nat (\<lceil>1 / x\<rceil> - 1))))"

definition round_half_even :: "rat \<Rightarrow> int" where
  "round_half_even q =
     (let n = \<lfloor>q\<rfloor>; r = q - of_int n in
      if r < 1 / 2 then n
      else if r > 1 / 2 then n + 1
      else if even n then n else n + 1)"

definition f64 :: "rat \<Rightarrow> rat" where
  "f64 x =
     (if x = 0 then 0
      else let a = \<bar>x\<bar>; e = ilog2 a; m = round_half_even (a * pow2 (52 - e))
           in sgn x * of_int m * pow2 (e - 52))"

subsection \<open>time.ParseDuration and time.Duration.String (format.go, time.go)\<close>

definition lowerhex :: "nat \<Rightarrow> char" where
  "lowerhex i = ''0123456789abcdef'' ! i"

text \<open>
  \<^verbatim>\<open>func quote(s string) string\<close> of package \<^verbatim>\<open>time\<close>. The \<^verbatim>\<open>range\<close> loop decodes one rune
  at a time, an invalid byte as \<^verbatim>\<open>RuneError\<close> of width 1.
\<close>

fun quote_loop :: "string \<Rightarrow> string" where
  "quote_loop [] = []"
| "quote_loop (c # cs) =
     (case DecodeRune (c # cs) of (r, n) \<Rightarrow>
        if r \<ge> 0x80 \<or> r < 0x20 then
          (let width =
                 (if r = RuneError then
                    (if 2 < length (c # cs) \<and> take 3 (c # cs) = [CHR 0xEF, CHR 0xBF, CHR 0xBD]
                     then 3 else 1)
                  else length (EncodeRune r))
           in concat (map (\<lambda>b. [CHR 0x5C, CHR ''x'', lowerhex (byte b div 16), lowerhex (byte b mod 16)])
                        (take width (c # cs)))
              @ quote_loop (drop (n - 1) cs))
        else (if c = CHR 0x22 \<or> c = CHR 0x5C then [CHR 0x5C, c] else [c]) @ quote_loop cs)"

definition quote :: "string \<Rightarrow> string" where
  "quote s = [CHR 0x22] @ quote_loop s @ [CHR 0x22]"

text \<open>
  \<^verbatim>\<open>func leadingInt(s) (x uint64, rem, err error)\<close>: \<open>None\<close> is \<^verbatim>\<open>errLeadingInt\<close>.
\<close>

fun leadingInt_loop :: "nat \<Rightarrow> string \<Rightarrow> (nat \<times> string) option" where
  "leadingInt_loop x [] = Some (x, [])"
| "leadingInt_loop x (c # cs) =
     (if \<not> isDigit c then Some (x, c # cs)
      else if x > 2 ^ 63 div 10 then None
      else let x1 = u64 (x * 10 + byte c - byte CHR ''0'') in
        if x1 > 2 ^ 63 then None else leadingInt_loop x1 cs)"

definition leadingInt :: "string \<Rightarrow> (nat \<times> string) option" where
  "leadingInt s = leadingInt_loop 0 s"

text \<open>
  \<^verbatim>\<open>func leadingFraction(s string) (x uint64, scale float64, rem string)\<close>; \<^verbatim>\<open>scale\<close> is
  multiplied in \<^verbatim>\<open>float64\<close>.
\<close>

fun leadingFraction_loop :: "nat \<Rightarrow> rat \<Rightarrow> bool \<Rightarrow> string \<Rightarrow> nat \<times> rat \<times> string" where
  "leadingFraction_loop x scale overflow [] = (x, scale, [])"
| "leadingFraction_loop x scale overflow (c # cs) =
     (if \<not> isDigit c then (x, scale, c # cs)
      else if overflow then leadingFraction_loop x scale overflow cs
      else if x > (2 ^ 63 - 1) div 10 then leadingFraction_loop x scale True cs
      else let y = u64 (x * 10 + byte c - byte CHR ''0'') in
        if y > 2 ^ 63 then leadingFraction_loop x scale True cs
        else leadingFraction_loop y (f64 (scale * 10)) overflow cs)"

definition leadingFraction :: "string \<Rightarrow> nat \<times> rat \<times> string" where
  "leadingFraction s = leadingFraction_loop 0 1 False s"

text \<open>\<^verbatim>\<open>unitMap\<close>; \<^verbatim>\<open>"\<mu>s"\<close> is spelled with U+00B5 (bytes C2 B5) or U+03BC (bytes CE BC).\<close>

definition unitMap :: "string \<Rightarrow> nat option" where
  "unitMap = map_of
     [(''ns'', 1),
      (''us'', 1000),
      ([CHR 0xC2, CHR 0xB5, CHR ''s''], 1000),
      ([CHR 0xCE, CHR 0xBC, CHR ''s''], 1000),
      (''ms'', 1000000),
      (''s'', 1000000000),
      (''m'', 60000000000),
      (''h'', 3600000000000)]"

definition invalid_duration :: "string \<Rightarrow> error" where
  "invalid_duration orig = errorString (''time: invalid duration '' @ quote orig)"

definition missing_unit :: "string \<Rightarrow> error" where
  "missing_unit orig = errorString (''time: missing unit in duration '' @ quote orig)"

definition unknown_unit :: "string \<Rightarrow> string \<Rightarrow> error" where
  "unknown_unit u orig =
     errorString (''time: unknown unit '' @ quote u @ '' in duration '' @ quote orig)"

definition unit_char :: "char \<Rightarrow> bool" where
  "unit_char c \<longleftrightarrow> \<not> (c = CHR ''.'' \<or> isDigit c)"

text \<open>
  The body of the loop \<^verbatim>\<open>for s != ""\<close> of \<^verbatim>\<open>ParseDuration\<close>, in three parts. The first
  consumes \<^verbatim>\<open>[0-9]*(\.[0-9]*)?\<close> from a non-empty \<open>s\<close>: the integer \<open>v\<close> before the
  point, the fraction \<open>f / scale\<close> after it, and the rest of \<open>s\<close>; \<open>None\<close> stands for the
  three returns of the error \<^verbatim>\<open>"time: invalid duration"\<close> of that part (a first byte that
  is neither digit nor point, an overflowing integer, no digit at all).
\<close>

definition leading_number :: "string \<Rightarrow> (nat \<times> nat \<times> rat \<times> string) option" where
  "leading_number s =
     (if \<not> (hd s = CHR ''.'' \<or> isDigit (hd s)) then None
      else case leadingInt s of None \<Rightarrow> None
      | Some (v, s1) \<Rightarrow>
        let pre = (length s \<noteq> length s1) in
        if s1 \<noteq> [] \<and> hd s1 = CHR ''.'' then
          (case leadingFraction (tl s1) of (f, scale, r) \<Rightarrow>
             let post = (length (tl s1) \<noteq> length r) in
             if \<not> pre \<and> \<not> post then None else Some (v, f, scale, r))
        else if \<not> pre then None else Some (v, 0, 1, s1))"

text \<open>
  The last part scales by the unit and adds to \<open>d\<close>: \<^verbatim>\<open>v *= unit\<close>, then
  \<^verbatim>\<open>v += uint64(float64(f) * (float64(unit) / scale))\<close> when \<^verbatim>\<open>f > 0\<close>, then \<^verbatim>\<open>d += v\<close>, each
  with its overflow check; \<open>None\<close> stands for the error \<^verbatim>\<open>"time: invalid duration"\<close>.
\<close>

definition add_component :: "nat \<Rightarrow> nat \<Rightarrow> nat \<Rightarrow> rat \<Rightarrow> nat \<Rightarrow> nat option" where
  "add_component d v f scale unit =
     (if v > 2 ^ 63 div unit then None
      else let v1 = u64 (v * unit);
               v2 = (if f > 0 then
                       u64 (v1 + nat \<lfloor>f64 (f64 (of_nat f) * f64 (f64 (of_nat unit) / scale))\<rfloor>)
                     else v1)
           in if f > 0 \<and> v2 > 2 ^ 63 then None
              else let d1 = u64 (d + v2) in
                if d1 > 2 ^ 63 then None else Some d1)"

text \<open>
  The whole body, with the unit consumed in between: the new \<open>d\<close> and the rest of \<open>s\<close>,
  or the error returned.
\<close>

definition parse_component :: "string \<Rightarrow> nat \<Rightarrow> string \<Rightarrow> error + (nat \<times> string)" where
  "parse_component orig d s =
     (case leading_number s of None \<Rightarrow> Inl (invalid_duration orig)
      | Some (v, f, scale, s2) \<Rightarrow>
        let u = takeWhile unit_char s2 in
        if u = [] then Inl (missing_unit orig)
        else case unitMap u of None \<Rightarrow> Inl (unknown_unit u orig)
        | Some unit \<Rightarrow>
          (case add_component d v f scale unit of
             None \<Rightarrow> Inl (invalid_duration orig)
           | Some d1 \<Rightarrow> Inr (d1, dropWhile unit_char s2)))"

lemma leadingInt_loop_length:
  "leadingInt_loop x s = Some (v, r) \<Longrightarrow> length r \<le> length s"
  by (induction x s rule: leadingInt_loop.induct) (auto simp: Let_def split: if_splits)

lemma leadingFraction_loop_length:
  "leadingFraction_loop x sc ov s = (f, sc', r) \<Longrightarrow> length r \<le> length s"
  by (induction x sc ov s rule: leadingFraction_loop.induct)
     (auto simp: Let_def split: if_splits)

lemma dropWhile_shorter:
  "takeWhile P s \<noteq> [] \<Longrightarrow> length (dropWhile P s) < length s"
  by (induction s) (auto simp: le_imp_less_Suc length_dropWhile_le split: if_splits)

lemma leading_number_length:
  assumes "leading_number s = Some (v, f, scale, s2)"
  shows "length s2 \<le> length s"
proof -
  from assms obtain v' s1 where li: "leadingInt s = Some (v', s1)"
    by (cases "leadingInt s") (auto simp: leading_number_def split: if_splits)
  then have l1: "length s1 \<le> length s"
    by (simp add: leadingInt_def leadingInt_loop_length)
  show ?thesis
  proof (cases "s1 \<noteq> [] \<and> hd s1 = CHR ''.''")
    case True
    obtain f' sc' r' where lf: "leadingFraction (tl s1) = (f', sc', r')"
      by (metis prod_cases3)
    then have "length r' \<le> length (tl s1)"
      unfolding leadingFraction_def by (rule leadingFraction_loop_length)
    moreover from assms li True lf have "s2 = r'"
      by (simp add: leading_number_def Let_def split: if_splits)
    ultimately show ?thesis using l1 by simp
  next
    case False
    with assms li have "s2 = s1"
      by (simp add: leading_number_def Let_def split: if_splits)
    with l1 show ?thesis by simp
  qed
qed

lemma parse_component_shorter:
  assumes "parse_component orig d s = Inr (d1, s3)"
  shows "length s3 < length s"
proof -
  from assms obtain v f scale s2 where ln: "leading_number s = Some (v, f, scale, s2)"
    by (cases "leading_number s") (auto simp: parse_component_def)
  with assms have "takeWhile unit_char s2 \<noteq> []" and "s3 = dropWhile unit_char s2"
    by (auto simp: parse_component_def Let_def split: if_splits option.splits)
  then have "length s3 < length s2"
    by (simp add: dropWhile_shorter)
  with leading_number_length [OF ln] show ?thesis by simp
qed

text \<open>The loop \<^verbatim>\<open>for s != ""\<close> of \<^verbatim>\<open>ParseDuration\<close>, returning the final \<open>d\<close>.\<close>

function parse_loop :: "string \<Rightarrow> nat \<Rightarrow> string \<Rightarrow> error + nat" where
  "parse_loop orig d s =
     (if s = [] then Inr d
      else case parse_component orig d s of
        Inl e \<Rightarrow> Inl e
      | Inr (d1, s3) \<Rightarrow> parse_loop orig d1 s3)"
  by pat_completeness auto
termination
  by (relation "measure (\<lambda>(orig, d, s). length s)")
     (auto dest: parse_component_shorter)

text \<open>
  \<^verbatim>\<open>func ParseDuration(s string) (Duration, error)\<close>. \<^verbatim>\<open>Duration(d)\<close> reads the \<^verbatim>\<open>uint64\<close> as
  an \<^verbatim>\<open>int64\<close>.
\<close>

definition ParseDuration :: "string \<Rightarrow> error + 64 word" where
  "ParseDuration orig =
     (let signed = (orig \<noteq> [] \<and> (hd orig = CHR ''-'' \<or> hd orig = CHR ''+''));
          neg = (signed \<and> hd orig = CHR ''-'');
          s = (if signed then tl orig else orig)
      in if s = ''0'' then Inr 0
         else if s = [] then Inl (invalid_duration orig)
         else case parse_loop orig 0 s of
           Inl e \<Rightarrow> Inl e
         | Inr d \<Rightarrow>
             if neg then Inr (- of_nat d)
             else if d > 2 ^ 63 - 1 then Inl (invalid_duration orig)
             else Inr (of_nat d))"

text \<open>
  \<^verbatim>\<open>fmtFrac\<close> and \<^verbatim>\<open>fmtInt\<close> write into the tail of a buffer, from its end towards its
  start; \<open>buf\<close> is the part of the buffer written so far.
\<close>

fun fmtFrac_loop :: "nat \<Rightarrow> string \<Rightarrow> nat \<Rightarrow> bool \<Rightarrow> string \<times> nat \<times> bool" where
  "fmtFrac_loop 0 buf v print = (buf, v, print)"
| "fmtFrac_loop (Suc i) buf v print =
     (let digit = v mod 10; print1 = (print \<or> digit \<noteq> 0)
      in fmtFrac_loop i (if print1 then char_of (digit + byte CHR ''0'') # buf else buf)
           (v div 10) print1)"

definition fmtFrac :: "string \<Rightarrow> nat \<Rightarrow> nat \<Rightarrow> string \<times> nat" where
  "fmtFrac buf v prec =
     (case fmtFrac_loop prec buf v False of
        (buf1, v1, print) \<Rightarrow> (if print then CHR ''.'' # buf1 else buf1, v1))"

fun fmtInt_loop :: "string \<Rightarrow> nat \<Rightarrow> string" where
  "fmtInt_loop buf v =
     (if v > 0 then fmtInt_loop (char_of (v mod 10 + byte CHR ''0'') # buf) (v div 10)
      else buf)"

definition fmtInt :: "string \<Rightarrow> nat \<Rightarrow> string" where
  "fmtInt buf v = (if v = 0 then CHR ''0'' # buf else fmtInt_loop buf v)"

text \<open>
  \<^verbatim>\<open>func (d Duration) String() string\<close>, through \<^verbatim>\<open>format\<close>. \<^verbatim>\<open>u := uint64(d)\<close> is the unsigned
  reading of the word, negated as a word when \<open>d\<close> is negative.
\<close>

definition String :: "64 word \<Rightarrow> string" where
  "String d =
     (let neg = (sint d < 0);
          u = (if neg then unat (- d) else unat d)
      in if u < 1000000000 then
           (if u = 0 then ''0s''
            else let (prec, buf) =
                       (if u < 1000 then (0, ''ns'')
                        else if u < 1000000 then (3, [CHR 0xC2, CHR 0xB5, CHR ''s''])
                        else (6, ''ms''));
                     (buf1, u1) = fmtFrac buf u prec;
                     buf2 = fmtInt buf1 u1
                 in if neg then CHR ''-'' # buf2 else buf2)
         else
           (let (buf1, u1) = fmtFrac ''s'' u 9;
                buf2 = fmtInt buf1 (u1 mod 60);
                u2 = u1 div 60;
                buf3 =
                  (if u2 > 0 then
                     (let buf4 = fmtInt (CHR ''m'' # buf2) (u2 mod 60);
                          u3 = u2 div 60
                      in if u3 > 0 then fmtInt (CHR ''h'' # buf4) u3 else buf4)
                   else buf2)
            in if neg then CHR ''-'' # buf3 else buf3))"

subsection \<open>encoding/json: encoding a string (encode.go)\<close>

text \<open>
  \<^verbatim>\<open>htmlSafeSet\<close>: the ASCII bytes that need no escape when HTML is escaped, which is every
  byte from space on except the double quote, the backslash, and the ampersand and the
  angle brackets.
\<close>

definition htmlSafeSet :: "char \<Rightarrow> bool" where
  "htmlSafeSet b \<longleftrightarrow> 0x20 \<le> byte b \<and> byte b < 0x80
     \<and> b \<notin> set [CHR 0x22, CHR ''&'', CHR ''<'', CHR ''>'', CHR 0x5C]"

definition escape_byte :: "char \<Rightarrow> string" where
  "escape_byte b =
     (if b = CHR 0x5C \<or> b = CHR 0x22 then [CHR 0x5C, b]
      else if b = CHR 0x08 then [CHR 0x5C, CHR ''b'']
      else if b = CHR 0x0C then [CHR 0x5C, CHR ''f'']
      else if b = CHR 0x0A then [CHR 0x5C, CHR ''n'']
      else if b = CHR 0x0D then [CHR 0x5C, CHR ''r'']
      else if b = CHR 0x09 then [CHR 0x5C, CHR ''t'']
      else [CHR 0x5C, CHR ''u'', CHR ''0'', CHR ''0'', lowerhex (byte b div 16),
            lowerhex (byte b mod 16)])"

text \<open>
  The loop of \<^verbatim>\<open>appendString\<close> with \<^verbatim>\<open>escapeHTML = true\<close>: the bytes appended between the
  two quotes.
\<close>

fun appendString_loop :: "string \<Rightarrow> string" where
  "appendString_loop [] = []"
| "appendString_loop (b # src) =
     (if byte b < 0x80 then
        (if htmlSafeSet b then b # appendString_loop src
         else escape_byte b @ appendString_loop src)
      else case DecodeRune (take 4 (b # src)) of (c, n) \<Rightarrow>
        if c = RuneError \<and> n = 1 then
          [CHR 0x5C, CHR ''u'', CHR ''f'', CHR ''f'', CHR ''f'', CHR ''d''] @ appendString_loop src
        else if c = 0x2028 \<or> c = 0x2029 then
          [CHR 0x5C, CHR ''u'', CHR ''2'', CHR ''0'', CHR ''2'', lowerhex (nat (c AND 0xF))]
            @ appendString_loop (drop (n - 1) src)
        else take n (b # src) @ appendString_loop (drop (n - 1) src))"

text \<open>
  \<^verbatim>\<open>func Marshal(v any) ([]byte, error)\<close> with \<open>v\<close> a \<^verbatim>\<open>string\<close>: the quoted string and no
  error.
\<close>

definition json_Marshal_string :: "string \<Rightarrow> string \<times> error option" where
  "json_Marshal_string s = ([CHR 0x22] @ appendString_loop s @ [CHR 0x22], None)"

section \<open>The duration codec of package plumber (types.go)\<close>

text \<open>
  \<^verbatim>\<open>func (d *Duration) UnmarshalJSON(b []byte) error\<close>: the returned error and the receiver
  afterwards. \<^verbatim>\<open>json.Unmarshal(b, &d.Duration)\<close> works on the field of the receiver, so
  what it leaves there stays there when the second attempt fails.
\<close>

definition UnmarshalJSON :: "string \<Rightarrow> Duration \<Rightarrow> error option \<times> Duration" where
  "UnmarshalJSON b d =
     (case json_Unmarshal_Duration b (Duration d) of
        (None, v) \<Rightarrow> (None, d\<lparr>Duration := v\<rparr>)
      | (Some e1, v) \<Rightarrow>
          (let d1 = d\<lparr>Duration := v\<rparr> in
           case json_Unmarshal_string b [] of
             (Some e2, str) \<Rightarrow> (Some e2, d1)
           | (None, str) \<Rightarrow>
               (case ParseDuration str of
                  Inl e3 \<Rightarrow> (Some e3, d1)
                | Inr pd \<Rightarrow> (None, d1\<lparr>Duration := pd\<rparr>))))"

text \<open>\<^verbatim>\<open>func (d *Duration) MarshalJSON() ([]byte, error)\<close>\<close>

definition MarshalJSON :: "Duration \<Rightarrow> string \<times> error option" where
  "MarshalJSON d = json_Marshal_string (String (Duration d))"

section \<open>Validation of the decoration options (types.go)\<close>

text \<open>
  \<^verbatim>\<open>func (d *DecorationConfig) Validate() error { return nil }\<close>: the returned error is
  \<open>None\<close> for \<^verbatim>\<open>nil\<close>.
\<close>

definition Validate :: "DecorationConfig \<Rightarrow> error option" where
  "Validate d = None"

section \<open>Notions used in the statements\<close>

text \<open>
  The decimal numeral of a natural number, without leading zeros: the way an integer is
  written as a raw JSON number.
\<close>

fun decimal :: "nat \<Rightarrow> string" where
  "decimal n =
     (if n < 10 then [char_of (n + byte CHR ''0'')]
      else decimal (n div 10) @ [char_of (n mod 10 + byte CHR ''0'')])"

text \<open>A JSON string literal with the given bytes between its quotes.\<close>

definition quoted :: "string \<Rightarrow> string" where
  "quoted s = [CHR 0x22] @ s @ [CHR 0x22]"

text \<open>
  Strings that pass through JSON unchanged: ASCII bytes that need no escape, and the two
  spellings of the micro sign in \<^verbatim>\<open>unitMap\<close>.
\<close>

fun plain :: "string \<Rightarrow> bool" where
  "plain [] \<longleftrightarrow> True"
| "plain (c # cs) \<longleftrightarrow>
     (if htmlSafeSet c then plain cs
      else (c = CHR 0xC2 \<or> c = CHR 0xCE) \<and>
        (case cs of [] \<Rightarrow> False
         | c1 # cs1 \<Rightarrow> c1 = (if c = CHR 0xC2 then CHR 0xB5 else CHR 0xBC) \<and> plain cs1))"

declare bit_length.simps [simp del]
declare fmtInt_loop.simps [simp del]
declare parse_loop.simps [simp del]
declare decimal.simps [simp del]

section \<open>Evaluation on concrete inputs\<close>

lemma fmtFrac_loop_numeral:
  "fmtFrac_loop (numeral k) buf v print =
     (let digit = v mod 10; print1 = (print \<or> digit \<noteq> 0)
      in fmtFrac_loop (pred_numeral k)
           (if print1 then char_of (digit + byte CHR ''0'') # buf else buf) (v div 10) print1)"
  by (subst numeral_eq_Suc) (rule fmtFrac_loop.simps)

lemma fmtFrac_loop_1:
  "fmtFrac_loop 1 buf v print =
     (let digit = v mod 10; print1 = (print \<or> digit \<noteq> 0)
      in fmtFrac_loop 0
           (if print1 then char_of (digit + byte CHR ''0'') # buf else buf) (v div 10) print1)"
  unfolding One_nat_def by (rule fmtFrac_loop.simps)

lemmas utf8_defs = DecodeRune_def first_def acceptRanges_def RuneError_def EncodeRune_def

lemmas scanner_defs =
  checkValid_def reset_def call_step_def eof_def scan_error_def isSpace_def isDigit_def isHex_def
  pushParseState_def popParseState_def maxNestingDepth_def
  stateEndTop_def stateEndValue_def stateBeginValue_def stateBeginValueOrEmpty_def
  stateBeginString_def stateBeginStringOrEmpty_def stateInString_def stateInStringEsc_def
  stateInStringEscU_to_def stateNeg_def state0_def state1_def stateDot_def stateDot0_def
  stateE_def stateESign_def stateE0_def stateLetter_def

lemmas decoder_defs =
  json_Unmarshal_Duration_def json_Unmarshal_string_def literalStore_Duration_def
  literalStore_string_def rescanLiteral_def unquoteBytes_def ParseInt_def ParseUint_def
  maxUint64_def u64_def

lemma bit_length_0: "bit_length 0 = 0"
  by (subst bit_length.simps) simp

lemma bit_length_Suc_0: "bit_length (Suc 0) = 1"
  by (subst bit_length.simps) (simp add: bit_length_0)

lemma bit_length_numeral: "bit_length (numeral k) = Suc (bit_length (numeral k div 2))"
  by (subst bit_length.simps) simp

lemma fmtInt_loop_0: "fmtInt_loop buf 0 = buf"
  by (subst fmtInt_loop.simps) simp

lemma fmtInt_loop_Suc_0: "fmtInt_loop buf (Suc 0) = CHR ''1'' # buf"
  by (subst fmtInt_loop.simps) (simp add: fmtInt_loop_0 char_of_def bit_Suc_0_iff)

lemma fmtInt_loop_numeral:
  "fmtInt_loop buf (numeral k) =
     fmtInt_loop (char_of (numeral k mod 10 + byte CHR ''0'') # buf) (numeral k div 10)"
  by (subst fmtInt_loop.simps) simp

lemma parse_loop_Nil: "parse_loop orig d [] = Inr d"
  by (subst parse_loop.simps) simp

lemma parse_loop_Cons:
  "parse_loop orig d (c # cs) =
     (case parse_component orig d (c # cs) of
        Inl e \<Rightarrow> Inl e
      | Inr (d1, s3) \<Rightarrow> parse_loop orig d1 s3)"
  by (subst parse_loop.simps) simp

lemmas float_defs =
  f64_def ilog2_def round_half_even_def pow2_def bit_length_0 bit_length_Suc_0 bit_length_numeral

lemmas parse_defs =
  ParseDuration_def parse_loop_Nil parse_loop_Cons parse_component_def leading_number_def add_component_def
  leadingInt_def leadingFraction_def unitMap_def unit_char_def
  invalid_duration_def missing_unit_def unknown_unit_def quote_def

lemmas format_defs =
  String_def fmtFrac_def fmtInt_def fmtInt_loop_0 fmtInt_loop_Suc_0 fmtInt_loop_numeral
  fmtFrac_loop_numeral fmtFrac_loop_1 char_of_def bit_Suc_0_iff bit_1_iff

lemmas encoder_defs = json_Marshal_string_def htmlSafeSet_def escape_byte_def

lemmas codec_defs = UnmarshalJSON_def MarshalJSON_def

section \<open>Properties\<close>

text \<open>
  C6: \<^verbatim>\<open>DecorationConfig.Validate\<close> returns no error for every configuration, whatever
  its fields hold; in particular for the configuration with every field absent or empty.
\<close>

theorem Validate_always_succeeds:
  "Validate d = None \<and>
   Validate \<lparr>Timeout = None, GracePeriod = None, GCSCredentialsSecret = [],
     SSHKeySecrets = [], SSHHostFingerprints = [], SkipCloning = None,
     CookiefileSecret = []\<rparr> = None"
  by (simp add: Validate_def)

subsection \<open>Failure leaves the receiver as it was\<close>

lemma literalStore_Duration_error:
  "literalStore_Duration item v = (Some e, v') \<Longrightarrow> v' = v"
  by (auto simp: literalStore_Duration_def split: list.splits if_splits option.splits prod.splits)

lemma json_Unmarshal_Duration_error:
  "json_Unmarshal_Duration b v = (Some e, v') \<Longrightarrow> v' = v"
  by (auto simp: json_Unmarshal_Duration_def dest: literalStore_Duration_error
           split: option.splits prod.splits if_splits)

text \<open>
  C9: if \<^verbatim>\<open>Duration.UnmarshalJSON\<close> returns an error, the receiver holds the duration it held
  before the call, whichever of the three steps failed (the integer decode together with
  the string decode, or the parse of the duration string).
\<close>

theorem UnmarshalJSON_error_leaves_receiver:
  assumes "UnmarshalJSON b d = (Some e, d')"
  shows "d' = d"
proof (cases "json_Unmarshal_Duration b (Duration d)")
  case (Pair r v)
  show ?thesis
  proof (cases r)
    case None
    with Pair assms show ?thesis by (simp add: UnmarshalJSON_def)
  next
    case (Some e1)
    with Pair have "v = Duration d" by (auto dest: json_Unmarshal_Duration_error)
    then have d1: "d\<lparr>Duration := v\<rparr> = d" by simp
    from assms Pair Some have "d' = d\<lparr>Duration := v\<rparr>"
      by (auto simp: UnmarshalJSON_def Let_def split: prod.splits option.splits sum.splits)
    with d1 show ?thesis by simp
  qed
qed

theorem UnmarshalJSON_error_leaves_receiver_witness:
  "UnmarshalJSON (quoted ''5x'') \<lparr>Duration = 7\<rparr> =
     (Some (errorString (''time: unknown unit '' @ quoted ''x'' @ '' in duration '' @ quoted ''5x'')),
      \<lparr>Duration = 7\<rparr>)
   \<and> UnmarshalJSON ''1.5'' \<lparr>Duration = 7\<rparr> =
     (Some (UnmarshalTypeError ''number'' ''string''), \<lparr>Duration = 7\<rparr>)
   \<and> UnmarshalJSON ''{'' \<lparr>Duration = 7\<rparr> =
     (Some (SyntaxError None ''unexpected end of JSON input''), \<lparr>Duration = 7\<rparr>)"
proof -
  have h1: "UnmarshalJSON (quoted ''5x'') \<lparr>Duration = 7\<rparr> =
     (Some (errorString (''time: unknown unit '' @ quoted ''x'' @ '' in duration '' @ quoted ''5x'')),
      snd (UnmarshalJSON (quoted ''5x'') \<lparr>Duration = 7\<rparr>))"
    by (simp add: codec_defs quoted_def scanner_defs decoder_defs parse_defs utf8_defs Let_def)
  have h2: "UnmarshalJSON ''1.5'' \<lparr>Duration = 7\<rparr> =
     (Some (UnmarshalTypeError ''number'' ''string''), snd (UnmarshalJSON ''1.5'' \<lparr>Duration = 7\<rparr>))"
    by (simp add: codec_defs scanner_defs decoder_defs Let_def)
  have h3: "UnmarshalJSON ''{'' \<lparr>Duration = 7\<rparr> =
     (Some (SyntaxError None ''unexpected end of JSON input''), snd (UnmarshalJSON ''{'' \<lparr>Duration = 7\<rparr>))"
    by (simp add: codec_defs scanner_defs decoder_defs Let_def)
  show ?thesis
    using UnmarshalJSON_error_leaves_receiver [OF h1] UnmarshalJSON_error_leaves_receiver [OF h2]
      UnmarshalJSON_error_leaves_receiver [OF h3] h1 h2 h3
    by simp
qed

subsection \<open>The zero duration\<close>

text \<open>
  C7: the raw integer \<^verbatim>\<open>0\<close> and the quoted string \<^verbatim>\<open>"0s"\<close> both unmarshal to the duration of
  zero nanoseconds, whatever the receiver held, and that duration marshals to the JSON
  string \<^verbatim>\<open>"0s"\<close>.
\<close>

theorem zero_duration_both_encodings:
  "UnmarshalJSON ''0'' d = (None, \<lparr>Duration = 0\<rparr>)
   \<and> UnmarshalJSON (quoted ''0s'') d = (None, \<lparr>Duration = 0\<rparr>)
   \<and> MarshalJSON \<lparr>Duration = 0\<rparr> = (quoted ''0s'', None)"
  by (simp add: codec_defs quoted_def scanner_defs decoder_defs parse_defs encoder_defs
        format_defs Let_def)

subsection \<open>JSON numbers\<close>

lemma ParseUint_loop_nondigit:
  "\<exists>c\<in>set s. \<not> isDigit c \<Longrightarrow> snd (ParseUint_loop n s) \<noteq> None"
  by (induction n s rule: ParseUint_loop.induct) (auto simp: Let_def)

lemma ParseUint_loop_range:
  "ParseUint_loop n s = (u, Some ErrRange) \<Longrightarrow> u = maxUint64"
  by (induction n s rule: ParseUint_loop.induct) (auto simp: Let_def split: if_splits)

lemma ParseUint_error:
  assumes "snd (ParseUint s) \<noteq> None"
  shows "snd (ParseUint s) = Some ErrSyntax \<or> ParseUint s = (maxUint64, Some ErrRange)"
proof -
  obtain u r where ur: "ParseUint s = (u, r)" by (cases "ParseUint s")
  with assms obtain e where r: "r = Some e" by auto
  show ?thesis
  proof (cases e)
    case ErrSyntax
    with ur r show ?thesis by simp
  next
    case ErrRange
    with ur r have "u = maxUint64"
      by (auto simp: ParseUint_def dest: ParseUint_loop_range split: if_splits)
    with ur r ErrRange show ?thesis by simp
  qed
qed

lemma ParseInt_ParseUint_error:
  assumes "s0 \<noteq> []"
    and "snd (ParseUint (if hd s0 = CHR ''+'' \<or> hd s0 = CHR ''-'' then tl s0 else s0)) \<noteq> None"
  shows "snd (ParseInt s0) \<noteq> None"
proof (cases "hd s0 = CHR ''+'' \<or> hd s0 = CHR ''-''")
  case True
  with assms(2) have "snd (ParseUint (tl s0)) \<noteq> None" by simp
  from ParseUint_error [OF this] show ?thesis
    using assms(1) True
    by (cases "ParseUint (tl s0)") (auto simp: ParseInt_def Let_def maxUint64_def)
next
  case False
  with assms(2) have "snd (ParseUint s0) \<noteq> None" by simp
  from ParseUint_error [OF this] show ?thesis
    using assms(1) False
    by (cases "ParseUint s0") (auto simp: ParseInt_def Let_def maxUint64_def)
qed

lemma ParseInt_nondigit:
  assumes "s0 \<noteq> []" and "\<exists>c\<in>set (tl s0). \<not> isDigit c"
  shows "snd (ParseInt s0) \<noteq> None"
proof (rule ParseInt_ParseUint_error [OF assms(1)])
  let ?s = "if hd s0 = CHR ''+'' \<or> hd s0 = CHR ''-'' then tl s0 else s0"
  from assms have ex: "\<exists>c\<in>set ?s. \<not> isDigit c"
    by (cases s0) auto
  then have "?s \<noteq> []" by auto
  with ex show "snd (ParseUint ?s) \<noteq> None"
    by (simp add: ParseUint_def ParseUint_loop_nondigit)
qed


lemma byte_eq_iff: "byte c = n \<longleftrightarrow> n < 256 \<and> c = char_of n"
  by (metis char_of_char of_char_of mod_less of_char_mod_256 mod_less_divisor zero_less_numeral)

lemma isDigit_cases:
  "isDigit c \<Longrightarrow> c = CHR ''0'' \<or> (byte CHR ''1'' \<le> byte c \<and> byte c \<le> byte CHR ''9'')"
proof -
  assume d: "isDigit c"
  show ?thesis
  proof (cases "byte c = 48")
    case True
    then have "c = char_of (48::nat)" by (simp add: byte_eq_iff)
    then show ?thesis by (simp add: char_of_def bit_Suc_0_iff)
  next
    case False
    with d show ?thesis by (simp add: isDigit_def)
  qed
qed

lemma isDigit_not_space: "isDigit c \<Longrightarrow> \<not> isSpace c"
  by (auto simp: isDigit_def isSpace_def)

lemma number_start_step:
  assumes "isDigit c \<or> c = CHR ''-''"
  shows "snd (call_step reset c) = scanBeginLiteral"
proof -
  from assms consider "c = CHR ''-''" | "c = CHR ''0''"
    | "c \<noteq> CHR ''0''" "byte CHR ''1'' \<le> byte c \<and> byte c \<le> byte CHR ''9''"
    using isDigit_cases by blast
  then show ?thesis
  proof cases
    case 1
    then show ?thesis by (simp add: call_step_def reset_def stateBeginValue_def isSpace_def)
  next
    case 2
    then show ?thesis by (simp add: call_step_def reset_def stateBeginValue_def isSpace_def)
  next
    case 3
    then have "\<not> isSpace c" by (auto simp: isSpace_def)
    moreover from 3 have "c \<noteq> CHR ''{''" "c \<noteq> CHR ''[''" "c \<noteq> CHR 0x22" "c \<noteq> CHR ''-''"
      "c \<noteq> CHR ''t''" "c \<noteq> CHR ''f''" "c \<noteq> CHR ''n''"
      by auto
    ultimately show ?thesis using 3
      by (simp add: call_step_def reset_def stateBeginValue_def)
  qed
qed

lemma scanWhile_number_start:
  assumes "isDigit c \<or> c = CHR ''-''"
  shows "\<exists>s1. scanWhile reset (c # cs) = (s1, scanBeginLiteral, c # cs)"
  using number_start_step [OF assms]
  by (cases "call_step reset c") simp

lemma number_literal_Duration:
  assumes "isDigit c \<or> c = CHR ''-''" and "snd (ParseInt (c # cs)) \<noteq> None"
  shows "literalStore_Duration (c # cs) v =
    (Some (UnmarshalTypeError (''number '' @ c # cs) ''time.Duration''), v)"
  using assms
  by (cases "ParseInt (c # cs)") (auto simp: literalStore_Duration_def isDigit_def)

lemma number_literal_string:
  assumes "isDigit c \<or> c = CHR ''-''"
  shows "literalStore_string (c # cs) v = (Some (UnmarshalTypeError ''number'' ''string''), v)"
  using assms by (auto simp: literalStore_string_def isDigit_def)

lemma rescanLiteral_number:
  assumes "isDigit c \<or> c = CHR ''-''"
    and "\<forall>x\<in>set cs. isDigit x \<or> x \<in> set ''.eE+-''"
  shows "rescanLiteral (c # cs) = c # cs"
proof -
  from assms(1) have "c \<noteq> CHR 0x22" by (auto simp: isDigit_def)
  moreover from assms(2)
  have "takeWhile (\<lambda>x. isDigit x \<or> x \<in> set [CHR ''.'', CHR ''e'', CHR ''E'', CHR ''+'', CHR ''-'']) cs = cs"
    by (simp add: takeWhile_eq_all_conv)
  ultimately show ?thesis using assms(1) by (simp add: rescanLiteral_def)
qed

text \<open>
  C10: a JSON number that is not written as an integer is rejected. The input ranges over the
  byte strings that start with a digit or a minus sign, consist of the characters of JSON
  numbers and hold a decimal point or an exponent mark, which covers every JSON number with
  a fraction or an exponent (\<^verbatim>\<open>1.5\<close>, \<^verbatim>\<open>1e-3\<close>, also \<^verbatim>\<open>1e3\<close>). \<^verbatim>\<open>UnmarshalJSON\<close> returns an
  error for each and leaves the receiver as it was: nothing is truncated. A fraction is
  accepted inside a quoted duration string such as \<^verbatim>\<open>"1.5h"\<close>, as the witness shows.
\<close>

theorem non_integer_number_rejected:
  assumes start: "isDigit c \<or> c = CHR ''-''"
    and chars: "\<forall>x\<in>set cs. isDigit x \<or> x \<in> set ''.eE+-''"
    and frac: "\<exists>x\<in>set cs. x \<in> set ''.eE''"
  shows "\<exists>e. UnmarshalJSON (c # cs) d = (Some e, d)"
proof (cases "checkValid (c # cs)")
  case (Some e)
  then show ?thesis
    by (simp add: UnmarshalJSON_def json_Unmarshal_Duration_def json_Unmarshal_string_def)
next
  case None
  from frac obtain x where x: "x \<in> set cs" "x \<in> set ''.eE''" by blast
  then have "\<not> isDigit x" by (auto simp: isDigit_def)
  with x have "\<exists>x\<in>set cs. \<not> isDigit x" by blast
  then have "snd (ParseInt (c # cs)) \<noteq> None"
    by (intro ParseInt_nondigit) simp_all
  from number_literal_Duration [OF start this]
  have 1: "literalStore_Duration (c # cs) (Duration d) =
    (Some (UnmarshalTypeError (''number '' @ c # cs) ''time.Duration''), Duration d)" .
  from scanWhile_number_start [OF start] obtain s1
    where sw: "scanWhile reset (c # cs) = (s1, scanBeginLiteral, c # cs)" by blast
  have "UnmarshalJSON (c # cs) d = (Some (UnmarshalTypeError ''number'' ''string''), d)"
    using None sw 1 number_literal_string [OF start] rescanLiteral_number [OF start chars]
    by (simp add: UnmarshalJSON_def json_Unmarshal_Duration_def json_Unmarshal_string_def)
  then show ?thesis by blast
qed

theorem non_integer_number_rejected_witness:
  "UnmarshalJSON ''1.5'' \<lparr>Duration = 7\<rparr> =
     (Some (UnmarshalTypeError ''number'' ''string''), \<lparr>Duration = 7\<rparr>)
   \<and> UnmarshalJSON ''1e-3'' \<lparr>Duration = 7\<rparr> =
     (Some (UnmarshalTypeError ''number'' ''string''), \<lparr>Duration = 7\<rparr>)
   \<and> UnmarshalJSON (quoted ''1.5h'') \<lparr>Duration = 7\<rparr> = (None, \<lparr>Duration = 5400000000000\<rparr>)"
proof -
  have "\<exists>e. UnmarshalJSON ''1.5'' \<lparr>Duration = 7\<rparr> = (Some e, \<lparr>Duration = 7\<rparr>)"
    by (rule non_integer_number_rejected) (simp_all add: isDigit_def)
  moreover have "\<exists>e. UnmarshalJSON ''1e-3'' \<lparr>Duration = 7\<rparr> = (Some e, \<lparr>Duration = 7\<rparr>)"
    by (rule non_integer_number_rejected) (simp_all add: isDigit_def)
  moreover have "fst (UnmarshalJSON ''1.5'' \<lparr>Duration = 7\<rparr>) = Some (UnmarshalTypeError ''number'' ''string'')"
    by (simp add: codec_defs scanner_defs decoder_defs Let_def)
  moreover have "fst (UnmarshalJSON ''1e-3'' \<lparr>Duration = 7\<rparr>) = Some (UnmarshalTypeError ''number'' ''string'')"
    by (simp add: codec_defs scanner_defs decoder_defs Let_def)
  moreover have "UnmarshalJSON (quoted ''1.5h'') \<lparr>Duration = 7\<rparr> = (None, \<lparr>Duration = 5400000000000\<rparr>)"
    by (simp add: codec_defs quoted_def scanner_defs decoder_defs parse_defs float_defs Let_def)
  ultimately show ?thesis by auto
qed

subsection \<open>Integers written in decimal\<close>

lemma isDigit_digit: "d < 10 \<Longrightarrow> isDigit (char_of (d + (48::nat)))"
  by (simp add: isDigit_def)

lemma decimal_digits: "\<forall>c\<in>set (decimal n). isDigit c"
proof (induction n rule: decimal.induct)
  case (1 n)
  show ?case
  proof (cases "n < 10")
    case True
    then show ?thesis by (subst decimal.simps) (simp add: isDigit_digit)
  next
    case False
    with 1 show ?thesis by (subst decimal.simps) (simp add: isDigit_digit)
  qed
qed

lemma decimal_0: "decimal 0 = ''0''"
  by (subst decimal.simps) (simp add: char_of_def bit_Suc_0_iff)

lemma decimal_pos:
  "0 < n \<Longrightarrow> \<exists>c ds. decimal n = c # ds \<and> c \<noteq> CHR ''0'' \<and> isDigit c \<and> (\<forall>x\<in>set ds. isDigit x)"
proof (induction n rule: decimal.induct)
  case (1 n)
  show ?case
  proof (cases "n < 10")
    case True
    have "char_of (n + (48::nat)) \<noteq> CHR ''0''"
    proof
      assume "char_of (n + (48::nat)) = CHR ''0''"
      then have "byte (char_of (n + (48::nat))) = byte CHR ''0''" by simp
      with True 1(2) show False by simp
    qed
    with True show ?thesis by (subst decimal.simps) (simp add: isDigit_digit)
  next
    case False
    then have "0 < n div 10" by simp
    with 1(1) False obtain c ds where
      "decimal (n div 10) = c # ds" "c \<noteq> CHR ''0''" "isDigit c" "\<forall>x\<in>set ds. isDigit x"
      by blast
    with False show ?thesis by (subst decimal.simps) (simp add: isDigit_digit)
  qed
qed

lemma ParseUint_loop_append:
  "ParseUint_loop a xs = (b, None) \<Longrightarrow> ParseUint_loop a (xs @ ys) = ParseUint_loop b ys"
  by (induction a xs rule: ParseUint_loop.induct) (auto simp: Let_def split: if_splits)

lemma ParseUint_loop_digit:
  assumes "d < 10" and "b * 10 + d \<le> maxUint64"
  shows "ParseUint_loop b [char_of (d + (48::nat))] = (b * 10 + d, None)"
proof -
  from assms have "b < maxUint64 div 10 + 1" by (simp add: maxUint64_def)
  moreover from assms have "u64 (b * 10) = b * 10" "u64 (b * 10 + d) = b * 10 + d"
    by (simp_all add: u64_def maxUint64_def)
  ultimately show ?thesis using assms
    by (simp add: isDigit_digit Let_def)
qed

lemma ParseUint_loop_decimal:
  "n \<le> maxUint64 \<Longrightarrow> ParseUint_loop 0 (decimal n) = (n, None)"
proof (induction n rule: decimal.induct)
  case (1 n)
  show ?case
  proof (cases "n < 10")
    case True
    with 1(2) have "ParseUint_loop 0 [char_of (n + (48::nat))] = (0 * 10 + n, None)"
      by (intro ParseUint_loop_digit) simp_all
    with True show ?thesis by (subst decimal.simps) simp
  next
    case False
    from 1(2) have le: "n div 10 \<le> maxUint64" by simp
    from 1(2) have "ParseUint_loop (n div 10) [char_of (n mod 10 + (48::nat))]
        = (n div 10 * 10 + n mod 10, None)"
      by (intro ParseUint_loop_digit) simp_all
    with ParseUint_loop_append [OF 1(1) [OF False le]] False show ?thesis
      by (subst decimal.simps) simp
  qed
qed

lemma decimal_not_Nil: "decimal n \<noteq> []"
  by (subst decimal.simps) simp

lemma decimal_hd: "isDigit (hd (decimal n))"
  using decimal_digits [of n] decimal_not_Nil [of n] by (cases "decimal n") auto

lemma isDigit_not_sign: "isDigit c \<Longrightarrow> c \<noteq> CHR ''+'' \<and> c \<noteq> CHR ''-''"
  by (auto simp: isDigit_def)

lemma ParseInt_decimal:
  assumes "n < 2 ^ 63"
  shows "ParseInt (decimal n) = (of_nat n, None)"
proof -
  from assms have "ParseUint (decimal n) = (n, None)"
    by (simp add: ParseUint_def decimal_not_Nil ParseUint_loop_decimal maxUint64_def)
  with assms isDigit_not_sign [OF decimal_hd [of n]] show ?thesis
    by (simp add: ParseInt_def decimal_not_Nil)
qed

lemma ParseInt_minus_decimal:
  assumes "n \<le> 2 ^ 63"
  shows "ParseInt (CHR ''-'' # decimal n) = (- of_nat n, None)"
proof -
  from assms have "ParseUint (decimal n) = (n, None)"
    by (simp add: ParseUint_def decimal_not_Nil ParseUint_loop_decimal maxUint64_def)
  with assms show ?thesis
    by (simp add: ParseInt_def)
qed


lemma checkValid_from_St0_end:
  assumes "step s = St0 \<or> step s = St1" "parseState s = []" "err s = None" "\<not> endTop s"
  shows "checkValid_from s [] = None"
  using assms
  by (auto simp: eof_def call_step_def state0_def state1_def isDigit_def stateEndValue_def
        stateEndTop_def isSpace_def)

lemma checkValid_from_digits:
  assumes "\<forall>x\<in>set ds. isDigit x"
    and "step s = St1" "parseState s = []" "err s = None" "\<not> endTop s"
  shows "checkValid_from s ds = None"
  using assms
proof (induction ds arbitrary: s)
  case Nil
  then show ?case by (intro checkValid_from_St0_end) simp_all
next
  case (Cons c ds)
  from Cons.prems have "call_step s c = (s\<lparr>step := St1\<rparr>, scanContinue)"
    by (simp add: call_step_def state1_def)
  moreover from Cons.prems have "checkValid_from (s\<lparr>step := St1\<rparr>) ds = None"
    by (intro Cons.IH) simp_all
  ultimately show ?case by simp
qed

lemma nonzero_digit:
  assumes "isDigit c" "c \<noteq> CHR ''0''"
  shows "byte CHR ''1'' \<le> byte c \<and> byte c \<le> byte CHR ''9''"
    and "\<not> isSpace c" and "c \<noteq> CHR ''{''" and "c \<noteq> CHR ''[''" and "c \<noteq> CHR 0x22"
    and "c \<noteq> CHR ''-''" and "c \<noteq> CHR ''t''" and "c \<noteq> CHR ''f''" and "c \<noteq> CHR ''n''"
  using isDigit_cases [OF assms(1)] assms(2) by (auto simp: isSpace_def)

lemma checkValid_digits:
  assumes "isDigit c" "c \<noteq> CHR ''0''" "\<forall>x\<in>set ds. isDigit x"
  shows "checkValid (c # ds) = None"
proof -
  have "call_step reset c = (reset\<lparr>step := St1\<rparr>, scanBeginLiteral)"
    using nonzero_digit [OF assms(1,2)] assms(2)
    by (simp add: call_step_def reset_def stateBeginValue_def)
  moreover have "checkValid_from (reset\<lparr>step := St1\<rparr>) ds = None"
    by (rule checkValid_from_digits [OF assms(3)]) (simp_all add: reset_def)
  ultimately show ?thesis by (simp add: checkValid_def)
qed

lemma checkValid_minus_digits:
  assumes "isDigit c" "c \<noteq> CHR ''0''" "\<forall>x\<in>set ds. isDigit x"
  shows "checkValid (CHR ''-'' # c # ds) = None"
proof -
  have "call_step reset CHR ''-'' = (reset\<lparr>step := Neg\<rparr>, scanBeginLiteral)"
    by (simp add: call_step_def reset_def stateBeginValue_def isSpace_def)
  moreover have "call_step (reset\<lparr>step := Neg\<rparr>) c = (reset\<lparr>step := St1\<rparr>, scanContinue)"
    using nonzero_digit [OF assms(1,2)] assms(2)
    by (simp add: call_step_def reset_def stateNeg_def)
  moreover have "checkValid_from (reset\<lparr>step := St1\<rparr>) ds = None"
    by (rule checkValid_from_digits [OF assms(3)]) (simp_all add: reset_def)
  ultimately show ?thesis by (simp add: checkValid_def)
qed

lemma checkValid_decimal: "checkValid (decimal n) = None"
proof (cases "n = 0")
  case True
  then show ?thesis by (simp add: decimal_0 scanner_defs)
next
  case False
  then obtain c ds where "decimal n = c # ds" "c \<noteq> CHR ''0''" "isDigit c" "\<forall>x\<in>set ds. isDigit x"
    using decimal_pos [of n] by auto
  then show ?thesis by (simp add: checkValid_digits)
qed

lemma checkValid_minus_decimal: "checkValid (CHR ''-'' # decimal n) = None"
proof (cases "n = 0")
  case True
  then show ?thesis by (simp add: decimal_0 scanner_defs)
next
  case False
  then obtain c ds where "decimal n = c # ds" "c \<noteq> CHR ''0''" "isDigit c" "\<forall>x\<in>set ds. isDigit x"
    using decimal_pos [of n] by auto
  then show ?thesis by (simp add: checkValid_minus_digits)
qed

lemma number_literal_Duration_ok:
  assumes "isDigit c \<or> c = CHR ''-''" and "ParseInt (c # cs) = (n, None)"
  shows "literalStore_Duration (c # cs) v = (None, n)"
  using assms by (auto simp: literalStore_Duration_def isDigit_def)

lemma json_Unmarshal_Duration_integer:
  assumes "isDigit c \<or> c = CHR ''-''" and "\<forall>x\<in>set cs. isDigit x"
    and "checkValid (c # cs) = None" and "ParseInt (c # cs) = (n, None)"
  shows "json_Unmarshal_Duration (c # cs) v = (None, n)"
proof -
  from scanWhile_number_start [OF assms(1)] obtain s1
    where sw: "scanWhile reset (c # cs) = (s1, scanBeginLiteral, c # cs)" by blast
  from assms(2) have "rescanLiteral (c # cs) = c # cs"
    by (intro rescanLiteral_number [OF assms(1)]) auto
  with sw assms(3) number_literal_Duration_ok [OF assms(1,4)] show ?thesis
    by (simp add: json_Unmarshal_Duration_def)
qed

lemma json_Unmarshal_Duration_decimal:
  assumes "n < 2 ^ 63"
  shows "json_Unmarshal_Duration (decimal n) v = (None, of_nat n)"
proof -
  obtain c cs where d: "decimal n = c # cs" using decimal_not_Nil [of n] by (cases "decimal n") auto
  with decimal_digits [of n] have "isDigit c" "\<forall>x\<in>set cs. isDigit x" by auto
  with d checkValid_decimal [of n] ParseInt_decimal [OF assms] show ?thesis
    by (simp add: json_Unmarshal_Duration_integer)
qed

lemma json_Unmarshal_Duration_minus_decimal:
  assumes "n \<le> 2 ^ 63"
  shows "json_Unmarshal_Duration (CHR ''-'' # decimal n) v = (None, - of_nat n)"
  using decimal_digits [of n] checkValid_minus_decimal [of n] ParseInt_minus_decimal [OF assms]
  by (simp add: json_Unmarshal_Duration_integer)

end
